theory Spec2Isabelle
  imports Complex_Main
begin

chapter \<open>The model\<close>

section \<open>Strings\<close>

text \<open>
  A JavaScript string is modelled as a \<open>string\<close> (a list of characters); tokens, cookie
  names and the passwords of the examples are ASCII, one character per code unit.
\<close>

definition startsWith :: "string \<Rightarrow> string \<Rightarrow> bool" where
  \<comment> \<open>\<open>s.startsWith(p)\<close>\<close>
  "startsWith s p = (take (length p) s = p)"

fun str_includes :: "string \<Rightarrow> string \<Rightarrow> bool" where
  \<comment> \<open>\<open>s.includes(p)\<close>: \<open>p\<close> occurs somewhere in \<open>s\<close>\<close>
  "str_includes [] p = (p = [])"
| "str_includes (c # cs) p = (startsWith (c # cs) p \<or> str_includes cs p)"

fun replace_first :: "string \<Rightarrow> string \<Rightarrow> string \<Rightarrow> string" where
  \<comment> \<open>\<open>s.replace(p, r)\<close> with a string pattern: only the first (leftmost) occurrence of
      \<open>p\<close> is replaced, wherever it stands\<close>
  "replace_first [] p r = (if p = [] then r else [])"
| "replace_first (c # cs) p r =
     (if startsWith (c # cs) p then r @ drop (length p) (c # cs)
      else c # replace_first cs p r)"

section \<open>Exceptions\<close>

text \<open>
  A thrown value is an \<open>Error\<close> with its message. A function that may throw returns
  \<open>exn + 'a\<close>; \<open>try { ... } catch (error) { ... }\<close> is \<open>try_catch\<close>, and sequencing
  of statements that may throw is \<open>then_do\<close>.
\<close>

datatype exn = Error string

definition then_do :: "'e + 'a \<Rightarrow> ('a \<Rightarrow> 'e + 'b) \<Rightarrow> 'e + 'b" where
  "then_do m f = (case m of Inl e \<Rightarrow> Inl e | Inr v \<Rightarrow> f v)"

definition try_catch :: "'e + 'a \<Rightarrow> ('e \<Rightarrow> 'f + 'a) \<Rightarrow> 'f + 'a" where
  "try_catch m h = (case m of Inl e \<Rightarrow> h e | Inr v \<Rightarrow> Inr v)"

section \<open>The jsonwebtoken library and the process environment\<close>

text \<open>
  \<open>jwt.sign\<close> and \<open>jwt.verify\<close> belong to the jsonwebtoken package, not to the
  repository: they are parameters of the model. Both read the clock, which is passed to
  them in seconds. \<open>TokenExpiredError\<close> is tested before \<open>JsonWebTokenError\<close> in the
  source; \<open>OtherError\<close> is any other thrown value.
\<close>

datatype jwt_error = TokenExpiredError | JsonWebTokenError | OtherError

record TokenInput =
  userId :: string
  email :: string

record JWTPayload = TokenInput +
  iat :: "int option"
  exp :: "int option"

record VerifyOptions =
  issuer :: string
  audience :: string

record SignOptions = VerifyOptions +
  expiresIn :: string

record jwt_lib =
  jwt_sign :: "int \<Rightarrow> TokenInput \<Rightarrow> string \<Rightarrow> SignOptions \<Rightarrow> jwt_error + string"
  jwt_verify :: "int \<Rightarrow> string \<Rightarrow> string \<Rightarrow> VerifyOptions \<Rightarrow> jwt_error + JWTPayload"

definition expiresIn_seconds :: "string \<Rightarrow> int option" where
  \<comment> \<open>the two time spans the source passes as \<open>expiresIn\<close>, in seconds\<close>
  "expiresIn_seconds lifetime =
     (if lifetime = ''7d'' then Some (7 * 24 * 60 * 60)
      else if lifetime = ''30d'' then Some (30 * 24 * 60 * 60)
      else None)"

record User =
  user_id :: string
  user_email :: string
  password :: string
  firstName :: "string option"
  lastName :: "string option"
  phone :: "string option"
  role :: string
  createdAt :: int
  updatedAt :: int

record UserData =
  new_email :: string
  new_password :: string
  new_firstName :: "string option"
  new_lastName :: "string option"

text \<open>
  What a request handler finds around it: the library, \<open>process.env.JWT_SECRET\<close>, the
  clock, the rows of the \<open>users\<close> table as a query returns them (or the error the
  driver throws), and the cookie store of \<open>next/headers\<close>. The table is one snapshot
  for the whole request. \<open>insert_user\<close> and \<open>bcrypt_hash\<close> are the outcomes of the
  \<open>INSERT ... RETURNING\<close> statement and of \<open>bcrypt.hash\<close>.
\<close>

record world =
  jwt :: jwt_lib
  env_JWT_SECRET :: "string option"
  clock :: int
  users :: "exn + User list"
  cookieStore :: "exn + (string \<rightharpoonup> string)"
  insert_user :: "UserData \<Rightarrow> exn + User"
  bcrypt_hash :: "string \<Rightarrow> nat \<Rightarrow> exn + string"

record NextRequest =
  cookies :: "string \<rightharpoonup> string"

datatype json =
  JNull | JBool bool | JNum int | JString string
  | JArray "json list" | JObject "(string \<times> json) list"

record NextResponse =
  status :: nat
  body :: "(string \<times> json) list"
  set_cookies :: "(string \<times> string) list"

definition json_response :: "(string \<times> json) list \<Rightarrow> nat \<Rightarrow> NextResponse" where
  \<comment> \<open>\<open>NextResponse.json(body, { status })\<close>\<close>
  "json_response b s = \<lparr>status = s, body = b, set_cookies = []\<rparr>"

section \<open>JWT utilities (jwt.ts)\<close>

definition JWT_SECRET :: "world \<Rightarrow> string" where
  \<comment> \<open>\<open>process.env.JWT_SECRET || 'default-secret-key-change-in-production'\<close>: an unset
      and an empty variable both give the default\<close>
  "JWT_SECRET w =
     (case env_JWT_SECRET w of
        None \<Rightarrow> ''default-secret-key-change-in-production''
      | Some s \<Rightarrow> if s = [] then ''default-secret-key-change-in-production'' else s)"

definition generateToken :: "world \<Rightarrow> TokenInput \<Rightarrow> exn + string" where
  "generateToken w payload =
     try_catch
       (jwt_sign (jwt w) (clock w) payload (JWT_SECRET w)
          \<lparr>issuer = ''ktlian-wears'', audience = ''ktlian-wears-users'', expiresIn = ''7d''\<rparr>)
       (\<lambda>error. Inl (Error ''Failed to generate token''))"

definition verifyToken :: "world \<Rightarrow> string \<Rightarrow> exn + JWTPayload" where
  "verifyToken w token =
     try_catch
       (jwt_verify (jwt w) (clock w) token (JWT_SECRET w)
          \<lparr>issuer = ''ktlian-wears'', audience = ''ktlian-wears-users''\<rparr>)
       (\<lambda>error. case error of
            TokenExpiredError \<Rightarrow> Inl (Error ''Token has expired'')
          | JsonWebTokenError \<Rightarrow> Inl (Error ''Invalid token'')
          | OtherError \<Rightarrow> Inl (Error ''Token verification failed''))"

definition decodeToken :: "string \<Rightarrow> JWTPayload option" where
  \<comment> \<open>the body is the deployment stub; the real decoding is commented out in the source\<close>
  "decodeToken token =
     (let userId = replace_first token ''temp-token-'' ''''
      in Some \<lparr>userId = userId, email = ''temp@example.com'', iat = None, exp = None\<rparr>)"

definition isTokenExpired :: "string \<Rightarrow> bool" where
  "isTokenExpired token = False"

definition getTokenExpiration :: "string \<Rightarrow> int option" where
  \<comment> \<open>the result is the \<open>Date\<close> in milliseconds, \<open>None\<close> is \<open>null\<close>;
      \<open>!decoded.exp\<close> holds for a missing \<open>exp\<close> and for \<open>exp = 0\<close>\<close>
  "getTokenExpiration token =
     (case decodeToken token of
        None \<Rightarrow> None
      | Some decoded \<Rightarrow>
          (case exp decoded of
             None \<Rightarrow> None
           | Some e \<Rightarrow> if e = 0 then None else Some (e * 1000)))"

record UserFromToken =
  success :: bool
  tokenUserId :: "string option"
  error :: "string option"

definition getUserFromToken :: "world \<Rightarrow> NextRequest \<Rightarrow> UserFromToken" where
  \<comment> \<open>\<open>!token\<close> holds for a missing cookie and for an empty value. A \<open>JWTPayload\<close> is an
      object with a string \<open>userId\<close>, so the test on the payload never fires.\<close>
  "getUserFromToken w request =
     (case cookies request ''auth_token'' of
        None \<Rightarrow> \<lparr>success = False, tokenUserId = None, error = Some ''No authentication token''\<rparr>
      | Some token \<Rightarrow>
          if token = [] then
            \<lparr>success = False, tokenUserId = None, error = Some ''No authentication token''\<rparr>
          else
            (case verifyToken w token of
               Inl e \<Rightarrow> \<lparr>success = False, tokenUserId = None, error = Some ''Authentication error''\<rparr>
             | Inr payload \<Rightarrow>
                 \<lparr>success = True, tokenUserId = Some (userId payload), error = None\<rparr>))"

text \<open>
  The reading of "the token with the prefix removed": the prefix is dropped when the token
  starts with it, and the token is left as it is otherwise.
\<close>

definition remove_prefix :: "string \<Rightarrow> string \<Rightarrow> string" where
  "remove_prefix p s = (if startsWith s p then drop (length p) s else s)"

section \<open>User queries (queries.ts)\<close>

definition getUserById :: "world \<Rightarrow> string \<Rightarrow> exn + User option" where
  \<comment> \<open>\<open>const [user] = await db.select().from(users).where(eq(users.id, userId))\<close>\<close>
  "getUserById w uid = then_do (users w) (\<lambda>rows. Inr (find (\<lambda>u. user_id u = uid) rows))"

definition getUserByEmail :: "world \<Rightarrow> string \<Rightarrow> exn + User option" where
  "getUserByEmail w e = then_do (users w) (\<lambda>rows. Inr (find (\<lambda>u. user_email u = e) rows))"

definition isUserAdmin :: "world \<Rightarrow> string \<Rightarrow> exn + bool" where
  \<comment> \<open>\<open>user?.role === 'admin' || user?.role === 'super_admin'\<close>\<close>
  "isUserAdmin w uid =
     then_do (users w) (\<lambda>rows.
       Inr (case find (\<lambda>u. user_id u = uid) rows of
              None \<Rightarrow> False
            | Some u \<Rightarrow> role u = ''admin'' \<or> role u = ''super_admin''))"

definition createUser :: "world \<Rightarrow> UserData \<Rightarrow> exn + User" where
  "createUser w userData = insert_user w userData"

section \<open>Sessions (session.ts)\<close>

definition SESSION_COOKIE_NAME :: string where
  "SESSION_COOKIE_NAME = ''auth-session''"

definition createUserSession :: "world \<Rightarrow> User \<Rightarrow> exn + string" where
  \<comment> \<open>the result is the \<open>token\<close> field of the returned object\<close>
  "createUserSession w user =
     try_catch
       (generateToken w \<lparr>userId = user_id user, email = user_email user\<rparr>)
       (\<lambda>error. Inl (Error ''Failed to create session''))"

definition validateSession :: "world \<Rightarrow> string \<Rightarrow> exn + User option" where
  \<comment> \<open>\<open>Some user\<close> is \<open>{ user }\<close>, \<open>None\<close> is \<open>null\<close>\<close>
  "validateSession w token =
     try_catch
       (then_do (verifyToken w token) (\<lambda>jwtPayload.
        then_do (getUserById w (userId jwtPayload)) (\<lambda>user.
          case user of None \<Rightarrow> Inr None | Some u \<Rightarrow> Inr (Some u))))
       (\<lambda>error. Inr None)"

definition getSessionToken :: "world \<Rightarrow> exn + string option" where
  \<comment> \<open>\<open>token?.value || null\<close>: a missing cookie and an empty value both give \<open>null\<close>\<close>
  "getSessionToken w =
     try_catch
       (then_do (cookieStore w) (\<lambda>cs.
          case cs SESSION_COOKIE_NAME of
            None \<Rightarrow> Inr None
          | Some v \<Rightarrow> if v = [] then Inr None else Inr (Some v)))
       (\<lambda>error. Inr None)"


section \<open>Admin authorization (the admin module and \<open>withAdminAuth\<close>)\<close>

definition admin_getCurrentUser :: "world \<Rightarrow> NextRequest option \<Rightarrow> exn + User option" where
  \<comment> \<open>\<open>getCurrentUser\<close> of the admin module; without a request the cookie comes from the
      cookie store. \<open>!token\<close> holds for a missing cookie and for an empty value; the
      payload is an object with a string \<open>userId\<close>, so the test on it never fires.\<close>
  "admin_getCurrentUser w request =
     try_catch
       (then_do
          (case request of
             Some r \<Rightarrow> Inr (cookies r ''auth_token'')
           | None \<Rightarrow> then_do (cookieStore w) (\<lambda>cs. Inr (cs ''auth_token'')))
          (\<lambda>token.
             case token of
               None \<Rightarrow> Inr None
             | Some t \<Rightarrow>
                 if t = [] then Inr None
                 else
                   then_do (verifyToken w t) (\<lambda>payload.
                   then_do (getUserById w (userId payload)) (\<lambda>user. Inr user))))
       (\<lambda>error. Inr None)"

definition getCurrentAdminUser :: "world \<Rightarrow> NextRequest option \<Rightarrow> exn + User option" where
  "getCurrentAdminUser w request =
     try_catch
       (then_do (admin_getCurrentUser w request) (\<lambda>user.
          case user of
            None \<Rightarrow> Inr None
          | Some u \<Rightarrow>
              then_do (isUserAdmin w (user_id u)) (\<lambda>userIsAdmin.
                if \<not> userIsAdmin then Inr None else Inr (Some u))))
       (\<lambda>error. Inr None)"

definition withAdminAuth ::
  "world \<Rightarrow> (NextRequest \<Rightarrow> User \<Rightarrow> exn + NextResponse) \<Rightarrow> NextRequest \<Rightarrow> exn + NextResponse"
where
  "withAdminAuth w handler request =
     try_catch
       (then_do (getCurrentAdminUser w (Some request)) (\<lambda>adminUser.
          case adminUser of
            None \<Rightarrow>
              Inr (json_response
                     [(''success'', JBool False),
                      (''error'', JString ''Admin authentication required''),
                      (''code'', JString ''ADMIN_AUTH_REQUIRED'')] 401)
          | Some a \<Rightarrow> handler request a))
       (\<lambda>error.
          Inr (json_response
                 [(''success'', JBool False),
                  (''error'', JString ''Authentication error''),
                  (''code'', JString ''AUTH_ERROR'')] 500))"

section \<open>Route guards (middleware.ts)\<close>




section \<open>Password strength (password.ts)\<close>

definition in_range :: "nat \<Rightarrow> nat \<Rightarrow> char \<Rightarrow> bool" where
  "in_range lo hi c = (lo \<le> of_char c \<and> (of_char c :: nat) \<le> hi)"

definition is_lower :: "char \<Rightarrow> bool" where
  \<comment> \<open>\<open>[a-z]\<close>\<close>
  "is_lower = in_range 97 122"

definition is_upper :: "char \<Rightarrow> bool" where
  \<comment> \<open>\<open>[A-Z]\<close>\<close>
  "is_upper = in_range 65 90"

definition is_digit :: "char \<Rightarrow> bool" where
  \<comment> \<open>\<open>\d\<close>\<close>
  "is_digit = in_range 48 57"

definition is_special :: "char \<Rightarrow> bool" where
  \<comment> \<open>the class \<open>[!@#$%^&*(),.?":{}|<>]\<close>; character \<open>0x22\<close> is the double quote\<close>
  "is_special c = (c \<in> set (''!@#$%^&*(),.?:{}|<>'' @ [CHR 0x22]))"

definition to_lower :: "char \<Rightarrow> char" where
  \<comment> \<open>the \<open>i\<close> flag of a pattern made of lower-case letters and digits folds \<open>A-Z\<close> only\<close>
  "to_lower c = (if is_upper c then char_of (of_char c + (32::nat)) else c)"

fun has_repeat :: "string \<Rightarrow> bool" where
  \<comment> \<open>\<open>/(.)\1{2,}/\<close>: a character other than a line terminator, three times in a row\<close>
  "has_repeat (a # b # c # rest) =
     ((a = b \<and> b = c \<and> a \<noteq> CHR 0x0A \<and> a \<noteq> CHR 0x0D) \<or> has_repeat (b # c # rest))"
| "has_repeat _ = False"

definition sequences :: "string list" where
  "sequences =
     [''123'', ''234'', ''345'', ''456'', ''567'', ''678'', ''789'', ''890'',
      ''abc'', ''bcd'', ''cde'', ''def'', ''efg'', ''fgh'', ''ghi'', ''hij'', ''ijk'',
      ''jkl'', ''klm'', ''lmn'', ''mno'', ''nop'', ''opq'', ''pqr'', ''qrs'', ''rst'',
      ''stu'', ''tuv'', ''uvw'', ''vwx'', ''wxy'', ''xyz'']"

definition has_sequence :: "string \<Rightarrow> bool" where
  \<comment> \<open>\<open>/123|234|...|xyz/i.test(password)\<close>\<close>
  "has_sequence pw = list_ex (str_includes (map to_lower pw)) sequences"

record PasswordCheck =
  isValid :: bool
  errors :: "string list"

definition validatePasswordStrength :: "string \<Rightarrow> PasswordCheck" where
  \<comment> \<open>every \<open>errors.push\<close> appends; the checks run in the order of the source\<close>
  "validatePasswordStrength pw =
     (let errors =
        (if length pw < 8 then [''Password must be at least 8 characters long''] else []) @
        (if length pw > 128 then [''Password must be less than 128 characters long''] else []) @
        (if \<not> list_ex is_lower pw
         then [''Password must contain at least one lowercase letter''] else []) @
        (if \<not> list_ex is_upper pw
         then [''Password must contain at least one uppercase letter''] else []) @
        (if \<not> list_ex is_digit pw
         then [''Password must contain at least one number''] else []) @
        (if \<not> list_ex is_special pw
         then [''Password must contain at least one special character (!@#$%^&*(),.?'' @
               [CHR 0x22] @ '':{}|<>)''] else []) @
        (if has_repeat pw
         then [''Password should not contain repeated characters''] else []) @
        (if has_sequence pw
         then [''Password should not contain sequential characters''] else [])
      in \<lparr>isValid = (length errors = 0), errors = errors\<rparr>)"

definition hashPassword :: "world \<Rightarrow> string \<Rightarrow> exn + string" where
  "hashPassword w pw =
     (let saltRounds = 12
      in try_catch (bcrypt_hash w pw saltRounds) (\<lambda>error. Inl (Error ''Failed to hash password'')))"

section \<open>Registration (register/route.ts)\<close>

record RegisterInput =
  reg_email :: string
  reg_password :: string
  reg_firstName :: "string option"
  reg_lastName :: "string option"

definition opt_json :: "string option \<Rightarrow> json" where
  "opt_json v = (case v of None \<Rightarrow> JNull | Some s \<Rightarrow> JString s)"

definition register_POST ::
  "world \<Rightarrow> exn + (json list + RegisterInput) \<Rightarrow> exn + NextResponse"
where
  \<comment> \<open>the second argument is the outcome of \<open>request.json()\<close> followed by
      \<open>registerSchema.safeParse\<close> (zod): a thrown error, the issues, or the validated data.
      Of the cookie only the name and the value are kept.\<close>
  "register_POST w parsed =
     try_catch
       (then_do parsed (\<lambda>validationResult.
          case validationResult of
            Inl issues \<Rightarrow>
              Inr (json_response
                     [(''error'', JString ''Validation failed''), (''details'', JArray issues)] 400)
          | Inr d \<Rightarrow>
              then_do (getUserByEmail w (reg_email d)) (\<lambda>existingUser.
                if existingUser \<noteq> None then
                  Inr (json_response
                         [(''error'', JString ''User with this email already exists'')] 409)
                else
                  let passwordValidation = validatePasswordStrength (reg_password d) in
                  if \<not> isValid passwordValidation then
                    Inr (json_response
                           [(''error'', JString ''Password does not meet security requirements''),
                            (''details'', JArray (map JString (errors passwordValidation)))] 400)
                  else
                    then_do (hashPassword w (reg_password d)) (\<lambda>hashedPassword.
                    then_do (createUser w
                               \<lparr>new_email = reg_email d, new_password = hashedPassword,
                                new_firstName = reg_firstName d,
                                new_lastName = reg_lastName d\<rparr>) (\<lambda>newUser.
                    then_do (createUserSession w newUser) (\<lambda>token.
                      let userResponse =
                            JObject [(''id'', JString (user_id newUser)),
                                     (''email'', JString (user_email newUser)),
                                     (''firstName'', opt_json (firstName newUser)),
                                     (''lastName'', opt_json (lastName newUser)),
                                     (''createdAt'', JNum (createdAt newUser))];
                          response =
                            json_response
                              [(''message'', JString ''User registered successfully''),
                               (''user'', userResponse)] 201
                      in Inr (response\<lparr>set_cookies :=
                                          set_cookies response @ [(''auth-session'', token)]\<rparr>)))))))
       (\<lambda>error.
          case error of Error message \<Rightarrow>
            if str_includes message ''duplicate key'' then
              Inr (json_response [(''error'', JString ''User with this email already exists'')] 409)
            else
              Inr (json_response [(''error'', JString ''Internal server error'')] 500))"

definition request_with :: "(string \<times> string) list \<Rightarrow> NextRequest" where
  \<comment> \<open>the request of a client whose cookie jar holds exactly the cookies a response set\<close>
  "request_with cs = \<lparr>cookies = map_of (rev cs)\<rparr>"

section \<open>Rate limiter\<close>

text \<open>
  \<open>Date.now()\<close> is an argument of every call, in milliseconds. A \<open>number\<close> of the
  source (the limit, the window, a counter, a time) is a real number here; \<open>NaN\<close> and
  \<open>undefined\<close> arise on the inherited path only.

  The store is the object literal \<open>{}\<close>. Its own properties are the finite map below.
  A read \<open>this.store[identifier]\<close> that finds no own property goes on to
  \<open>Object.prototype\<close>, whose properties are objects without \<open>count\<close> and
  \<open>resetTime\<close>: such a value is truthy, \<open>now > undefined\<close> and
  \<open>undefined >= maxRequests\<close> are false, \<open>count++\<close> leaves \<open>NaN\<close> on the inherited
  object (not in the store), and \<open>maxRequests - NaN\<close> is \<open>NaN\<close>.
\<close>

datatype jsnum = Num real | NaN | Undefined

record RateLimitConfig =
  windowMs :: real
  maxRequests :: real

record RateLimitRecord =
  count :: real
  resetTime :: real

type_synonym RateLimitStore = "string \<rightharpoonup> RateLimitRecord"

record RateLimitResult =
  allowed :: bool
  remaining :: jsnum
  result_resetTime :: jsnum

definition object_prototype_keys :: "string list" where
  "object_prototype_keys =
     [''constructor'', ''__defineGetter__'', ''__defineSetter__'', ''hasOwnProperty'',
      ''__lookupGetter__'', ''__lookupSetter__'', ''isPrototypeOf'',
      ''propertyIsEnumerable'', ''toString'', ''valueOf'', ''__proto__'',
      ''toLocaleString'']"

datatype slot = Own RateLimitRecord | Inherited | Missing

definition store_get :: "RateLimitStore \<Rightarrow> string \<Rightarrow> slot" where
  \<comment> \<open>\<open>this.store[identifier]\<close>\<close>
  "store_get store identifier =
     (case store identifier of
        Some r \<Rightarrow> Own r
      | None \<Rightarrow> if identifier \<in> set object_prototype_keys then Inherited else Missing)"

definition isAllowed ::
  "RateLimitConfig \<Rightarrow> real \<Rightarrow> string \<Rightarrow> RateLimitStore \<Rightarrow> RateLimitResult \<times> RateLimitStore"
where
  "isAllowed config now identifier store0 =
     (let record = store_get store0 identifier;
          store = (case record of
                     Own r \<Rightarrow> if now > resetTime r then store0(identifier := None) else store0
                   | Inherited \<Rightarrow> store0
                   | Missing \<Rightarrow> store0)
      in case store_get store identifier of
           Missing \<Rightarrow>
             (\<lparr>allowed = True, remaining = Num (maxRequests config - 1),
               result_resetTime = Num (now + windowMs config)\<rparr>,
              store(identifier \<mapsto> \<lparr>count = 1, resetTime = now + windowMs config\<rparr>))
         | Own r \<Rightarrow>
             if count r \<ge> maxRequests config then
               (\<lparr>allowed = False, remaining = Num 0, result_resetTime = Num (resetTime r)\<rparr>,
                store)
             else
               (\<lparr>allowed = True, remaining = Num (maxRequests config - (count r + 1)),
                 result_resetTime = Num (resetTime r)\<rparr>,
                store(identifier \<mapsto> r\<lparr>count := count r + 1\<rparr>))
         | Inherited \<Rightarrow>
             (\<lparr>allowed = True, remaining = NaN, result_resetTime = Undefined\<rparr>, store))"

definition cleanup :: "real \<Rightarrow> RateLimitStore \<Rightarrow> RateLimitStore" where
  \<comment> \<open>\<open>Object.keys\<close> lists the own properties\<close>
  "cleanup now store =
     (\<lambda>key. case store key of
               None \<Rightarrow> None
             | Some r \<Rightarrow> if now > resetTime r then None else Some r)"

definition authRateLimiter :: RateLimitConfig where
  "authRateLimiter = \<lparr>windowMs = 15 * 60 * 1000, maxRequests = 5\<rparr>"

definition generalRateLimiter :: RateLimitConfig where
  "generalRateLimiter = \<lparr>windowMs = 60 * 1000, maxRequests = 100\<rparr>"

fun split_space :: "string \<Rightarrow> string list" where
  \<comment> \<open>\<open>s.split(' ')\<close>\<close>
  "split_space [] = [[]]"
| "split_space (c # cs) =
     (if c = CHR '' '' then [] # split_space cs
      else (case split_space cs of [] \<Rightarrow> [[c]] | x # xs \<Rightarrow> (c # x) # xs))"

fun join_space :: "string list \<Rightarrow> string" where
  \<comment> \<open>\<open>parts.join(' ')\<close>\<close>
  "join_space [] = []"
| "join_space [x] = x"
| "join_space (x # y # ys) = x @ '' '' @ join_space (y # ys)"

definition getClientIdentifier :: "string option \<Rightarrow> string" where
  \<comment> \<open>the argument is \<open>request.headers.get('user-agent')\<close>\<close>
  "getClientIdentifier header =
     (let userAgent = (case header of
                         None \<Rightarrow> ''unknown''
                       | Some h \<Rightarrow> if h = [] then ''unknown'' else h)
      in join_space (take 3 (split_space userAgent)))"

text \<open>A history of calls on one limiter, starting from the empty store.\<close>

datatype call = IsAllowed string real | Cleanup real

fun step :: "RateLimitConfig \<Rightarrow> RateLimitStore \<Rightarrow> call \<Rightarrow> RateLimitStore" where
  "step config store (IsAllowed identifier now) = snd (isAllowed config now identifier store)"
| "step config store (Cleanup now) = cleanup now store"

definition run :: "RateLimitConfig \<Rightarrow> call list \<Rightarrow> RateLimitStore" where
  "run config calls = foldl (step config) Map.empty calls"

fun answers ::
  "RateLimitConfig \<Rightarrow> string \<Rightarrow> real list \<Rightarrow> RateLimitStore \<Rightarrow> bool list \<times> RateLimitStore"
where
  \<comment> \<open>the \<open>allowed\<close> fields of successive calls for one identifier, and the final store\<close>
  "answers config identifier [] store = ([], store)"
| "answers config identifier (now # later) store =
     (let (r, store') = isAllowed config now identifier store;
          (rs, store'') = answers config identifier later store'
      in (allowed r # rs, store''))"

definition within_limit :: "RateLimitConfig \<Rightarrow> RateLimitStore \<Rightarrow> bool" where
  \<comment> \<open>every record of the store counts a whole number of requests, not more than the
      limit\<close>
  "within_limit config store \<longleftrightarrow>
     (\<forall>key r. store key = Some r \<longrightarrow> count r \<in> \<int> \<and> count r \<le> maxRequests config)"

definition seven_calls :: "call list" where
  "seven_calls =
     [IsAllowed ''curl/8.0'' 0, IsAllowed ''curl/8.0'' 1, IsAllowed ''curl/8.0'' 2,
      IsAllowed ''curl/8.0'' 3, IsAllowed ''curl/8.0'' 4, IsAllowed ''curl/8.0'' 5,
      IsAllowed ''curl/8.0'' 6]"

section \<open>The contract of the token library\<close>

text \<open>
  The jsonwebtoken package is not part of the sources. What the model asks of
  \<open>jwt.sign\<close> and \<open>jwt.verify\<close> follows the description of signing and verification
  in the specification: with a non-empty secret and a valid time span, signing returns a
  token, and verifying that token with the same secret and the issuer and audience it was
  signed for, before the expiry, returns the signed \<open>userId\<close> and \<open>email\<close>.
\<close>

definition jwt_contract :: "jwt_lib \<Rightarrow> bool" where
  \<comment> \<open>Modelled from the spec: the round trip of \<open>jwt.sign\<close> and \<open>jwt.verify\<close> of the
      jsonwebtoken package, which is missing from the sources\<close>
  "jwt_contract lib \<longleftrightarrow>
     (\<forall>t0 t1 p secret opts n.
        secret \<noteq> [] \<and> expiresIn_seconds (expiresIn opts) = Some n \<longrightarrow>
        (\<exists>token. jwt_sign lib t0 p secret opts = Inr token \<and>
           (t1 < t0 + n \<longrightarrow>
              (\<exists>d. jwt_verify lib t1 token secret
                     \<lparr>issuer = issuer opts, audience = audience opts\<rparr> = Inr d \<and>
                   userId d = userId p \<and> email d = email p))))"

text \<open>
  A library that meets the contract: the token carries its fields in the clear, each one
  behind its length in unary, and the secret stands for the signature. The expiry is the
  time of issue plus the time span.
\<close>

definition put_str :: "string \<Rightarrow> string" where
  "put_str s = replicate (length s) CHR ''1'' @ CHR ''0'' # s"

fun ones :: "string \<Rightarrow> nat" where
  "ones [] = 0"
| "ones (c # cs) = (if c = CHR ''1'' then Suc (ones cs) else 0)"

definition take_str :: "string \<Rightarrow> (string \<times> string) option" where
  "take_str t =
     (let n = ones t in
      case drop n t of
        [] \<Rightarrow> None
      | c # rest \<Rightarrow>
          if c \<noteq> CHR ''0'' \<or> length rest < n then None
          else Some (take n rest, drop n rest))"

definition put_int :: "int \<Rightarrow> string" where
  "put_int i = (if i < 0 then CHR ''-'' else CHR ''+'') # put_str (replicate (nat \<bar>i\<bar>) CHR ''x'')"

definition take_int :: "string \<Rightarrow> (int \<times> string) option" where
  "take_int t =
     (case t of
        [] \<Rightarrow> None
      | c # rest \<Rightarrow>
          (case take_str rest of
             None \<Rightarrow> None
           | Some (s, r) \<Rightarrow> Some (if c = CHR ''-'' then - int (length s) else int (length s), r)))"

definition plain_sign :: "int \<Rightarrow> TokenInput \<Rightarrow> string \<Rightarrow> SignOptions \<Rightarrow> jwt_error + string" where
  \<comment> \<open>Modelled from the spec: \<open>jwt.sign\<close> (missing from the sources) serializes the
      payload, embeds issuer and audience, sets the expiry, and signs with the secret\<close>
  "plain_sign now p secret opts =
     (case expiresIn_seconds (expiresIn opts) of
        None \<Rightarrow> Inl OtherError
      | Some n \<Rightarrow>
          if secret = [] then Inl OtherError
          else Inr (put_str (userId p) @ put_str (email p) @ put_int now @
                    put_str (expiresIn opts) @ put_str (issuer opts) @
                    put_str (audience opts) @ put_str secret))"

definition plain_verify ::
  "int \<Rightarrow> string \<Rightarrow> string \<Rightarrow> VerifyOptions \<Rightarrow> jwt_error + JWTPayload"
where
  \<comment> \<open>Modelled from the spec: \<open>jwt.verify\<close> (missing from the sources) checks structure
      and signature, then expiry, audience and issuer\<close>
  "plain_verify now token secret opts =
     (case take_str token of None \<Rightarrow> Inl JsonWebTokenError | Some (uid, t1) \<Rightarrow>
     (case take_str t1 of None \<Rightarrow> Inl JsonWebTokenError | Some (mail, t2) \<Rightarrow>
     (case take_int t2 of None \<Rightarrow> Inl JsonWebTokenError | Some (issued, t3) \<Rightarrow>
     (case take_str t3 of None \<Rightarrow> Inl JsonWebTokenError | Some (lifetime, t4) \<Rightarrow>
     (case take_str t4 of None \<Rightarrow> Inl JsonWebTokenError | Some (iss, t5) \<Rightarrow>
     (case take_str t5 of None \<Rightarrow> Inl JsonWebTokenError | Some (aud, t6) \<Rightarrow>
     (case take_str t6 of None \<Rightarrow> Inl JsonWebTokenError | Some (sig, t7) \<Rightarrow>
     (case expiresIn_seconds lifetime of None \<Rightarrow> Inl JsonWebTokenError | Some n \<Rightarrow>
        (if t7 \<noteq> [] \<or> sig \<noteq> secret then Inl JsonWebTokenError
         else if now \<ge> issued + n then Inl TokenExpiredError
         else if aud \<noteq> audience opts \<or> iss \<noteq> issuer opts then Inl JsonWebTokenError
         else Inr \<lparr>userId = uid, email = mail, iat = Some issued,
                   exp = Some (issued + n)\<rparr>)))))))))"

definition plain_lib :: jwt_lib where
  "plain_lib = \<lparr>jwt_sign = plain_sign, jwt_verify = plain_verify\<rparr>"

text \<open>Rows, worlds and requests of the examples.\<close>

definition customer :: User where
  "customer = \<lparr>user_id = ''u-1'', user_email = ''a@b.com'', password = ''$2a$12$hash'',
                firstName = None, lastName = None, phone = None, role = ''customer'',
                createdAt = 0, updatedAt = 0\<rparr>"

definition example_world :: world where
  "example_world =
     \<lparr>jwt = plain_lib, env_JWT_SECRET = Some ''s3'', clock = 2,
      users = Inr [customer], cookieStore = Inr Map.empty,
      insert_user = (\<lambda>d. Inr \<lparr>user_id = ''u-2'', user_email = new_email d,
                                password = new_password d, firstName = new_firstName d,
                                lastName = new_lastName d, phone = None, role = ''customer'',
                                createdAt = 2, updatedAt = 2\<rparr>),
      bcrypt_hash = (\<lambda>pw rounds. Inr (''$2a$12$'' @ pw))\<rparr>"

definition customer_token :: string where
  \<comment> \<open>what \<open>generateToken\<close> returns for the customer in the example world\<close>
  "customer_token =
     put_str ''u-1'' @ put_str ''a@b.com'' @ put_int 2 @ put_str ''7d'' @
     put_str ''ktlian-wears'' @ put_str ''ktlian-wears-users'' @ put_str ''s3''"




definition customer_request :: NextRequest where
  "customer_request = \<lparr>cookies = [''auth_token'' \<mapsto> customer_token]\<rparr>"

definition ok_handler :: "NextRequest \<Rightarrow> User \<Rightarrow> exn + NextResponse" where
  "ok_handler request adminUser = Inr (json_response [(''success'', JBool True)] 200)"

definition registration :: "exn + (json list + RegisterInput)" where
  "registration =
     Inr (Inr \<lparr>reg_email = ''c@d.com'', reg_password = ''Tr0ub4dor&3!'',
               reg_firstName = None, reg_lastName = None\<rparr>)"

text \<open>
  The reading of "an error mentioning common-word weakness": the message speaks of a
  common or weak password, in any letter case.
\<close>

definition mentions_common_word :: "string \<Rightarrow> bool" where
  "mentions_common_word e \<longleftrightarrow>
     str_includes (map to_lower e) ''common'' \<or> str_includes (map to_lower e) ''weak''"

chapter \<open>Properties\<close>

section \<open>Exceptions and strings\<close>

lemma then_do_simps [simp]:
  "then_do (Inl e) f = Inl e" "then_do (Inr v) f = f v"
  by (simp_all add: then_do_def)

lemma try_catch_simps [simp]:
  "try_catch (Inl e) h = h e" "try_catch (Inr v) h = Inr v"
  by (simp_all add: try_catch_def)

lemma startsWith_append [simp]: "startsWith (p @ s) p"
  by (simp add: startsWith_def)

lemma startsWith_Nil [simp]: "startsWith [] p = (p = [])"
  by (auto simp add: startsWith_def)

lemma startsWith_imp_includes: "startsWith s p \<Longrightarrow> str_includes s p"
  by (cases s) auto

lemma replace_first_prefix:
  "startsWith s p \<Longrightarrow> replace_first s p r = r @ drop (length p) s"
  by (cases s) auto

lemma replace_first_absent: "\<not> str_includes s p \<Longrightarrow> replace_first s p r = s"
  by (induction s) auto

lemma replace_first_split:
  "str_includes s p \<Longrightarrow>
     \<exists>a b. s = a @ p @ b \<and> replace_first s p r = a @ r @ b \<and>
           (\<forall>n < length a. \<not> startsWith (drop n s) p)"
proof (induction s)
  case Nil
  then show ?case by simp
next
  case (Cons c cs)
  show ?case
  proof (cases "startsWith (c # cs) p")
    case True
    then have "c # cs = [] @ p @ drop (length p) (c # cs)"
      by (metis append_Nil append_take_drop_id startsWith_def)
    moreover have "replace_first (c # cs) p r = [] @ r @ drop (length p) (c # cs)"
      using True by simp
    moreover have "\<forall>n < length ([]::string). \<not> startsWith (drop n (c # cs)) p"
      by simp
    ultimately show ?thesis
      by (intro exI conjI)
  next
    case False
    with Cons.prems have "str_includes cs p" by simp
    from Cons.IH [OF this] obtain a b where
      ab: "cs = a @ p @ b" "replace_first cs p r = a @ r @ b"
          "\<forall>n < length a. \<not> startsWith (drop n cs) p"
      by (elim exE conjE)
    have "c # cs = (c # a) @ p @ b" using ab(1) by simp
    moreover have "replace_first (c # cs) p r = (c # a) @ r @ b"
      using False ab(2) by simp
    moreover have "\<forall>n < length (c # a). \<not> startsWith (drop n (c # cs)) p"
    proof (intro allI impI)
      fix n
      assume l: "n < length (c # a)"
      show "\<not> startsWith (drop n (c # cs)) p"
      proof (cases n)
        case 0
        then show ?thesis using False by simp
      next
        case (Suc m)
        then have "m < length a" using l by simp
        then show ?thesis using ab(3) Suc by simp
      qed
    qed
    ultimately show ?thesis
      by (intro exI conjI)
  qed
qed

section \<open>The stubbed decoding\<close>

text \<open>
  C2, as stated: for every token \<open>t\<close>, \<open>isTokenExpired t\<close> is false and \<open>decodeToken t\<close>
  is the payload whose \<open>userId\<close> is \<open>t\<close> with the prefix \<open>temp-token-\<close> removed and whose
  \<open>email\<close> is \<open>temp@example.com\<close>. This fails for a token that holds \<open>temp-token-\<close>
  somewhere behind its first character: \<open>replace\<close> removes the first occurrence, prefix or
  not.
\<close>

theorem decodeToken_prefix_counterexample:
  "decodeToken ''xtemp-token-1'' \<noteq>
     Some \<lparr>userId = remove_prefix ''temp-token-'' ''xtemp-token-1'',
           email = ''temp@example.com'', iat = None, exp = None\<rparr>"
  by (simp add: decodeToken_def remove_prefix_def startsWith_def)

text \<open>
  C2, amended: for every token \<open>t\<close>, \<open>isTokenExpired t\<close> is false and \<open>decodeToken t\<close>
  is never \<open>null\<close>: it is the payload with the email \<open>temp@example.com\<close>, without
  \<open>iat\<close> and \<open>exp\<close>, whose \<open>userId\<close> is \<open>t\<close> with the first occurrence of
  \<open>temp-token-\<close> removed (\<open>t\<close> itself when there is none). That is \<open>t\<close> with the prefix
  removed whenever \<open>t\<close> starts with \<open>temp-token-\<close> or does not contain it.
\<close>

theorem decodeToken_stub:
  "isTokenExpired t = False \<and>
   (\<exists>p. decodeToken t = Some p \<and> email p = ''temp@example.com'' \<and>
        iat p = None \<and> exp p = None \<and>
        (str_includes t ''temp-token-'' \<longrightarrow>
           (\<exists>a b. t = a @ ''temp-token-'' @ b \<and> userId p = a @ b \<and>
                  (\<forall>n < length a. \<not> startsWith (drop n t) ''temp-token-''))) \<and>
        (\<not> str_includes t ''temp-token-'' \<longrightarrow> userId p = t) \<and>
        (startsWith t ''temp-token-'' \<or> \<not> str_includes t ''temp-token-'' \<longrightarrow>
           userId p = remove_prefix ''temp-token-'' t))"
proof -
  let ?p = "\<lparr>userId = replace_first t ''temp-token-'' [], email = ''temp@example.com'',
             iat = None, exp = None\<rparr>"
  have d: "decodeToken t = Some ?p"
    by (simp add: decodeToken_def)
  have first: "str_includes t ''temp-token-'' \<longrightarrow>
           (\<exists>a b. t = a @ ''temp-token-'' @ b \<and> userId ?p = a @ b \<and>
                  (\<forall>n < length a. \<not> startsWith (drop n t) ''temp-token-''))"
    using replace_first_split [of t "''temp-token-''" "[]"] by simp
  have absent: "\<not> str_includes t ''temp-token-'' \<longrightarrow> userId ?p = t"
    by (simp add: replace_first_absent)
  have pre: "startsWith t ''temp-token-'' \<or> \<not> str_includes t ''temp-token-'' \<longrightarrow>
           userId ?p = remove_prefix ''temp-token-'' t"
  proof (cases "startsWith t ''temp-token-''")
    case True
    then show ?thesis
      using replace_first_prefix [of t "''temp-token-''" "[]"] by (simp add: remove_prefix_def)
  next
    case False
    then show ?thesis
      by (simp add: remove_prefix_def replace_first_absent)
  qed
  have "decodeToken t = Some ?p \<and> email ?p = ''temp@example.com'' \<and>
        iat ?p = None \<and> exp ?p = None"
    using d by simp
  with first absent pre show ?thesis
    unfolding isTokenExpired_def by blast
qed

theorem decodeToken_stub_witness:
  "startsWith ''temp-token-42'' ''temp-token-'' \<and>
   map_option userId (decodeToken ''temp-token-42'') = Some ''42'' \<and>
   \<not> str_includes ''abc'' ''temp-token-'' \<and>
   map_option userId (decodeToken ''abc'') = Some ''abc''"
proof -
  have s: "startsWith ''temp-token-42'' ''temp-token-''"
    by (simp add: startsWith_def)
  have n: "\<not> str_includes ''abc'' ''temp-token-''"
    by (simp add: startsWith_def)
  from decodeToken_stub [of "''temp-token-42''"] s
  have "map_option userId (decodeToken ''temp-token-42'') =
          Some (remove_prefix ''temp-token-'' ''temp-token-42'')"
    by auto
  moreover from decodeToken_stub [of "''abc''"] n
  have "map_option userId (decodeToken ''abc'') = Some ''abc''"
    by auto
  ultimately show ?thesis
    using s n by (simp add: remove_prefix_def startsWith_def)
qed

text \<open>
  C10: for every token, \<open>getTokenExpiration\<close> returns \<open>null\<close>: the payload of the
  stubbed \<open>decodeToken\<close> has no \<open>exp\<close>.
\<close>

theorem getTokenExpiration_null: "getTokenExpiration t = None"
  by (simp add: getTokenExpiration_def decodeToken_def)

section \<open>Sessions and route guards\<close>


lemma validateSession_verify_failed:
  "verifyToken w token = Inl e \<Longrightarrow> validateSession w token = Inr None"
  by (simp add: validateSession_def)

lemma validateSession_verified:
  "verifyToken w token = Inr p \<Longrightarrow>
   validateSession w token =
     Inr (case getUserById w (userId p) of Inl e \<Rightarrow> None | Inr user \<Rightarrow> user)"
  by (cases "getUserById w (userId p)") (auto simp: validateSession_def split: option.splits)

lemma validateSession_returns: "\<exists>r. validateSession w token = Inr r"
  by (cases "verifyToken w token")
     (auto simp: validateSession_verify_failed validateSession_verified)


lemma find_absent: "x \<notin> f ` set xs \<Longrightarrow> find (\<lambda>u. f u = x) xs = None"
  by (induction xs) auto

lemma getUserById_deleted:
  "users w = Inr rows \<Longrightarrow> uid \<notin> user_id ` set rows \<Longrightarrow> getUserById w uid = Inr None"
  by (simp add: getUserById_def find_absent)

text \<open>
  C5: \<open>validateSession\<close> never throws. A token that fails verification gives \<open>null\<close>;
  a verified token gives the user that \<open>getUserById\<close> finds for the \<open>userId\<close> of the
  payload, and \<open>null\<close> when the table has no row with that id (or the query fails).
\<close>

theorem validateSession_null_not_error:
  "(\<exists>r. validateSession w token = Inr r) \<and>
   (\<forall>e. verifyToken w token = Inl e \<longrightarrow> validateSession w token = Inr None) \<and>
   (\<forall>p. verifyToken w token = Inr p \<longrightarrow>
        validateSession w token =
          Inr (case getUserById w (userId p) of Inl e \<Rightarrow> None | Inr user \<Rightarrow> user) \<and>
        (\<forall>rows. users w = Inr rows \<and> userId p \<notin> user_id ` set rows \<longrightarrow>
           validateSession w token = Inr None))"
proof (intro conjI allI impI)
  show "\<exists>r. validateSession w token = Inr r"
    by (rule validateSession_returns)
next
  fix e assume "verifyToken w token = Inl e"
  then show "validateSession w token = Inr None"
    by (rule validateSession_verify_failed)
next
  fix p assume "verifyToken w token = Inr p"
  then show "validateSession w token =
          Inr (case getUserById w (userId p) of Inl e \<Rightarrow> None | Inr user \<Rightarrow> user)"
    by (rule validateSession_verified)
next
  fix p rows
  assume v: "verifyToken w token = Inr p"
    and r: "users w = Inr rows \<and> userId p \<notin> user_id ` set rows"
  then have "getUserById w (userId p) = Inr None"
    by (simp add: getUserById_deleted)
  then show "validateSession w token = Inr None"
    using validateSession_verified [OF v] by simp
qed

lemma take_ones: "ones (replicate n CHR ''1'' @ CHR ''0'' # r) = n"
  by (induction n) auto

lemma take_str_put [simp]: "take_str (put_str s @ r) = Some (s, r)"
  by (simp add: take_str_def put_str_def take_ones Let_def)

lemma take_str_put_end [simp]: "take_str (put_str s) = Some (s, [])"
  using take_str_put [of s "[]"] by simp

lemma take_int_put [simp]: "take_int (put_int i @ r) = Some (i, r)"
  by (simp add: take_int_def put_int_def)

lemma verify_customer_token:
  "verifyToken (example_world\<lparr>users := rows\<rparr>) customer_token =
     Inr \<lparr>userId = ''u-1'', email = ''a@b.com'', iat = Some 2, exp = Some 604802\<rparr>"
  by (simp add: verifyToken_def example_world_def plain_lib_def plain_verify_def
      JWT_SECRET_def expiresIn_seconds_def customer_token_def)

lemma verify_garbage:
  "verifyToken (example_world\<lparr>users := rows\<rparr>) ''garbage'' = Inl (Error ''Invalid token'')"
  by (simp add: verifyToken_def example_world_def plain_lib_def plain_verify_def
      JWT_SECRET_def take_str_def)

theorem validateSession_null_not_error_witness:
  "verifyToken (example_world\<lparr>users := Inr []\<rparr>) ''garbage'' = Inl (Error ''Invalid token'') \<and>
   validateSession (example_world\<lparr>users := Inr []\<rparr>) ''garbage'' = Inr None \<and>
   verifyToken (example_world\<lparr>users := Inr []\<rparr>) customer_token =
     Inr \<lparr>userId = ''u-1'', email = ''a@b.com'', iat = Some 2, exp = Some 604802\<rparr> \<and>
   users (example_world\<lparr>users := Inr []\<rparr>) = Inr [] \<and>
   ''u-1'' \<notin> user_id ` set [] \<and>
   validateSession (example_world\<lparr>users := Inr []\<rparr>) customer_token = Inr None \<and>
   validateSession (example_world\<lparr>users := Inr [customer]\<rparr>) customer_token =
     Inr (Some customer)"
proof -
  let ?gone = "example_world\<lparr>users := Inr []\<rparr>"
  let ?there = "example_world\<lparr>users := Inr [customer]\<rparr>"
  let ?p = "\<lparr>userId = ''u-1'', email = ''a@b.com'', iat = Some 2, exp = Some 604802\<rparr>"
  have vg: "verifyToken ?gone ''garbage'' = Inl (Error ''Invalid token'')"
    by (rule verify_garbage)
  have g: "validateSession ?gone ''garbage'' = Inr None"
    using validateSession_null_not_error [of ?gone "''garbage''"] vg by blast
  have u: "users ?gone = Inr [] \<and> userId ?p \<notin> user_id ` set []" by simp
  have vc: "verifyToken ?gone customer_token = Inr ?p"
    by (rule verify_customer_token)
  have d: "validateSession ?gone customer_token = Inr None"
    using validateSession_null_not_error [of ?gone customer_token] vc u by blast
  have vt: "verifyToken ?there customer_token = Inr ?p"
    by (rule verify_customer_token)
  have "validateSession ?there customer_token =
          Inr (case getUserById ?there (userId ?p) of Inl e \<Rightarrow> None | Inr user \<Rightarrow> user)"
    using validateSession_null_not_error [of ?there customer_token] vt by blast
  moreover have "getUserById ?there (userId ?p) = Inr (Some customer)"
    by (simp add: getUserById_def customer_def)
  ultimately have t: "validateSession ?there customer_token = Inr (Some customer)"
    by simp
  show ?thesis
    using vg g vc d t by simp
qed










section \<open>Password strength\<close>

lemmas char_class_defs =
  is_lower_def is_upper_def is_digit_def is_special_def in_range_def to_lower_def

lemma password_errors:
  "validatePasswordStrength ''password'' =
     \<lparr>isValid = False,
      errors = [''Password must contain at least one uppercase letter'',
                ''Password must contain at least one number'',
                ''Password must contain at least one special character (!@#$%^&*(),.?'' @
                [CHR 0x22] @ '':{}|<>)'']\<rparr>"
  by (simp add: validatePasswordStrength_def char_class_defs has_sequence_def sequences_def
      startsWith_def)

lemma troubadour_valid:
  "validatePasswordStrength ''Tr0ub4dor&3!'' = \<lparr>isValid = True, errors = []\<rparr>"
  by (simp add: validatePasswordStrength_def char_class_defs has_sequence_def sequences_def
      startsWith_def)

text \<open>
  C4, as stated: \<open>validatePasswordStrength\<close> on \<open>password\<close> returns \<open>isValid = false\<close>
  with an error mentioning common-word weakness. The function has no check against common
  passwords, and none of the errors it returns for \<open>password\<close> mentions one.
\<close>

theorem password_common_word_counterexample:
  "\<not> list_ex mentions_common_word (errors (validatePasswordStrength ''password''))"
  by (simp add: password_errors mentions_common_word_def char_class_defs startsWith_def)

text \<open>
  C4, amended: \<open>validatePasswordStrength\<close> on \<open>password\<close> returns \<open>isValid = false\<close>
  with three accumulated errors (no upper-case letter, no number, no special character),
  and on \<open>Tr0ub4dor&3!\<close> returns \<open>isValid = true\<close> with an empty error list.
\<close>

theorem password_examples:
  "validatePasswordStrength ''password'' =
     \<lparr>isValid = False,
      errors = [''Password must contain at least one uppercase letter'',
                ''Password must contain at least one number'',
                ''Password must contain at least one special character (!@#$%^&*(),.?'' @
                [CHR 0x22] @ '':{}|<>)'']\<rparr> \<and>
   validatePasswordStrength ''Tr0ub4dor&3!'' = \<lparr>isValid = True, errors = []\<rparr>"
  using password_errors troubadour_valid by simp

section \<open>Signing and verifying\<close>

lemma plain_contract: "jwt_contract plain_lib"
  unfolding jwt_contract_def plain_lib_def
  by (auto simp add: plain_sign_def plain_verify_def)

lemma JWT_SECRET_nonempty: "JWT_SECRET w \<noteq> []"
  by (simp add: JWT_SECRET_def split: option.splits)

text \<open>
  C6: with a token library that meets its contract, a payload signed by \<open>generateToken\<close>
  and verified by \<open>verifyToken\<close> under the same environment secret, at any time before
  the seven days are over, comes back with the same \<open>userId\<close> and \<open>email\<close>; the issuer
  \<open>ktlian-wears\<close> and the audience \<open>ktlian-wears-users\<close> that \<open>verifyToken\<close> asks for
  are the ones \<open>generateToken\<close> signs.
\<close>

theorem token_roundtrip:
  assumes "jwt_contract (jwt w)" and "t1 < clock w + 7 * 24 * 60 * 60"
  shows "\<exists>token d. generateToken w p = Inr token \<and>
            verifyToken (w\<lparr>clock := t1\<rparr>) token = Inr d \<and>
            userId d = userId p \<and> email d = email p"
proof -
  let ?opts = "\<lparr>issuer = ''ktlian-wears'', audience = ''ktlian-wears-users'',
                expiresIn = ''7d''\<rparr>"
  have span: "expiresIn_seconds (expiresIn ?opts) = Some (7 * 24 * 60 * 60)"
    by (simp add: expiresIn_seconds_def)
  from assms(1) JWT_SECRET_nonempty [of w] span
  obtain token where
    s: "jwt_sign (jwt w) (clock w) p (JWT_SECRET w) ?opts = Inr token" and
    v: "t1 < clock w + 7 * 24 * 60 * 60 \<longrightarrow>
          (\<exists>d. jwt_verify (jwt w) t1 token (JWT_SECRET w)
                 \<lparr>issuer = issuer ?opts, audience = audience ?opts\<rparr> = Inr d \<and>
               userId d = userId p \<and> email d = email p)"
    unfolding jwt_contract_def by blast
  from v assms(2) obtain d where
    d: "jwt_verify (jwt w) t1 token (JWT_SECRET w)
          \<lparr>issuer = ''ktlian-wears'', audience = ''ktlian-wears-users''\<rparr> = Inr d"
       "userId d = userId p" "email d = email p"
    by auto
  have "generateToken w p = Inr token"
    by (simp add: generateToken_def s)
  moreover have "verifyToken (w\<lparr>clock := t1\<rparr>) token = Inr d"
    by (simp add: verifyToken_def JWT_SECRET_def d [unfolded JWT_SECRET_def])
  ultimately show ?thesis using d by blast
qed

theorem token_roundtrip_witness:
  "jwt_contract (jwt example_world) \<and>
   (100::int) < clock example_world + 7 * 24 * 60 * 60 \<and>
   (\<exists>token d.
      generateToken example_world \<lparr>userId = ''u-1'', email = ''a@b.com''\<rparr> = Inr token \<and>
      verifyToken (example_world\<lparr>clock := 100\<rparr>) token = Inr d \<and>
      userId d = ''u-1'' \<and> email d = ''a@b.com'')"
proof -
  have c: "jwt_contract (jwt example_world)"
    by (simp add: example_world_def plain_contract)
  have t: "(100::int) < clock example_world + 7 * 24 * 60 * 60"
    by (simp add: example_world_def)
  show ?thesis
    using c t token_roundtrip [OF c t, of "\<lparr>userId = ''u-1'', email = ''a@b.com''\<rparr>"]
    by simp
qed

section \<open>Admin authorization\<close>

lemma find_same_id: "find (\<lambda>x. f x = k) rows = Some u \<Longrightarrow> f u = k"
  by (induction rows) (auto split: if_splits)

lemma admin_getCurrentUser_no_token:
  "cookies request ''auth_token'' = None \<Longrightarrow> admin_getCurrentUser w (Some request) = Inr None"
  by (simp add: admin_getCurrentUser_def)

lemma admin_getCurrentUser_bad_token:
  "cookies request ''auth_token'' = Some t \<Longrightarrow> verifyToken w t = Inl e \<Longrightarrow>
   admin_getCurrentUser w (Some request) = Inr None"
  by (simp add: admin_getCurrentUser_def)

lemma admin_getCurrentUser_resolved:
  "cookies request ''auth_token'' = Some t \<Longrightarrow> t \<noteq> [] \<Longrightarrow>
   verifyToken w t = Inr payload \<Longrightarrow> users w = Inr rows \<Longrightarrow>
   admin_getCurrentUser w (Some request) = Inr (find (\<lambda>u. user_id u = userId payload) rows)"
  by (simp add: admin_getCurrentUser_def getUserById_def)

lemma getCurrentAdminUser_none:
  "admin_getCurrentUser w request = Inr None \<Longrightarrow> getCurrentAdminUser w request = Inr None"
  by (simp add: getCurrentAdminUser_def)

lemma getCurrentAdminUser_customer:
  assumes "admin_getCurrentUser w request = Inr (Some u)" and "users w = Inr rows"
    and "find (\<lambda>x. user_id x = user_id u) rows = Some u'" and "role u' = ''customer''"
  shows "getCurrentAdminUser w request = Inr None"
  using assms by (simp add: getCurrentAdminUser_def isUserAdmin_def)

lemma withAdminAuth_rejects:
  "getCurrentAdminUser w (Some request) = Inr None \<Longrightarrow>
   withAdminAuth w handler request =
     Inr \<lparr>status = 401,
          body = [(''success'', JBool False),
                  (''error'', JString ''Admin authentication required''),
                  (''code'', JString ''ADMIN_AUTH_REQUIRED'')],
          set_cookies = []\<rparr>"
  by (simp add: withAdminAuth_def json_response_def)

lemma customer_request_rejected:
  "withAdminAuth example_world ok_handler customer_request =
     Inr \<lparr>status = 401,
          body = [(''success'', JBool False),
                  (''error'', JString ''Admin authentication required''),
                  (''code'', JString ''ADMIN_AUTH_REQUIRED'')],
          set_cookies = []\<rparr>"
proof -
  have e: "example_world = example_world\<lparr>users := Inr [customer]\<rparr>"
    by (simp add: example_world_def)
  have v: "verifyToken example_world customer_token =
             Inr \<lparr>userId = ''u-1'', email = ''a@b.com'', iat = Some 2, exp = Some 604802\<rparr>"
    using verify_customer_token [of "Inr [customer]"] e by simp
  have n: "customer_token \<noteq> []"
    by (simp add: customer_token_def put_str_def)
  have u: "users example_world = Inr [customer]"
    by (simp add: example_world_def)
  have "admin_getCurrentUser example_world (Some customer_request) = Inr (Some customer)"
    using admin_getCurrentUser_resolved [OF _ n v u, of customer_request]
    by (simp add: customer_request_def customer_def)
  moreover have "find (\<lambda>x. user_id x = user_id customer) [customer] = Some customer"
    by simp
  moreover have "role customer = ''customer''"
    by (simp add: customer_def)
  ultimately have "getCurrentAdminUser example_world (Some customer_request) = Inr None"
    using u getCurrentAdminUser_customer by blast
  then show ?thesis
    by (rule withAdminAuth_rejects)
qed

text \<open>
  C1, as stated: a request with a valid, unexpired token of a user whose role is
  \<open>customer\<close> gets a 403 from an endpoint wrapped by \<open>withAdminAuth\<close>. In the example
  world the customer's request gets the status 401.
\<close>

theorem withAdminAuth_customer_counterexample:
  "cookies customer_request ''auth_token'' = Some customer_token \<and>
   verifyToken example_world customer_token =
     Inr \<lparr>userId = ''u-1'', email = ''a@b.com'', iat = Some 2, exp = Some 604802\<rparr> \<and>
   getUserById example_world ''u-1'' = Inr (Some customer) \<and>
   role customer = ''customer'' \<and>
   map_sum id status (withAdminAuth example_world ok_handler customer_request) = Inr 401"
proof -
  have e: "example_world = example_world\<lparr>users := Inr [customer]\<rparr>"
    by (simp add: example_world_def)
  have "verifyToken example_world customer_token =
          Inr \<lparr>userId = ''u-1'', email = ''a@b.com'', iat = Some 2, exp = Some 604802\<rparr>"
    using verify_customer_token [of "Inr [customer]"] e by simp
  moreover have "getUserById example_world ''u-1'' = Inr (Some customer)"
    by (simp add: getUserById_def example_world_def customer_def)
  moreover have "cookies customer_request ''auth_token'' = Some customer_token"
    by (simp add: customer_request_def)
  moreover have "role customer = ''customer''"
    by (simp add: customer_def)
  moreover have
    "map_sum id status (withAdminAuth example_world ok_handler customer_request) = Inr 401"
    by (simp add: customer_request_rejected)
  ultimately show ?thesis
    by blast
qed

text \<open>
  C1, amended: a request with a valid, unexpired token of a user whose role is
  \<open>customer\<close> is rejected by \<open>withAdminAuth\<close> with the status 401 and the code
  \<open>ADMIN_AUTH_REQUIRED\<close>, without a call of the handler; this is the very response given
  to a request without a token and to a request whose token fails verification.
\<close>

theorem withAdminAuth_customer:
  assumes "cookies request ''auth_token'' = Some t" and "t \<noteq> []"
    and "verifyToken w t = Inr payload"
    and "users w = Inr rows"
    and "find (\<lambda>u. user_id u = userId payload) rows = Some u"
    and "role u = ''customer''"
  shows "withAdminAuth w handler request =
           Inr \<lparr>status = 401,
                body = [(''success'', JBool False),
                        (''error'', JString ''Admin authentication required''),
                        (''code'', JString ''ADMIN_AUTH_REQUIRED'')],
                set_cookies = []\<rparr> \<and>
         withAdminAuth w handler \<lparr>cookies = Map.empty\<rparr> =
           withAdminAuth w handler request \<and>
         (\<forall>request' t' e.
            cookies request' ''auth_token'' = Some t' \<and> verifyToken w t' = Inl e \<longrightarrow>
            withAdminAuth w handler request' = withAdminAuth w handler request)"
proof -
  have "admin_getCurrentUser w (Some request) = Inr (Some u)"
    using admin_getCurrentUser_resolved [OF assms(1-4)] assms(5) by simp
  moreover have "find (\<lambda>x. user_id x = user_id u) rows = Some u"
    using assms(5) find_same_id [OF assms(5)] by simp
  ultimately have "getCurrentAdminUser w (Some request) = Inr None"
    using assms(4,6) getCurrentAdminUser_customer by blast
  then have r: "withAdminAuth w handler request =
           Inr \<lparr>status = 401,
                body = [(''success'', JBool False),
                        (''error'', JString ''Admin authentication required''),
                        (''code'', JString ''ADMIN_AUTH_REQUIRED'')],
                set_cookies = []\<rparr>"
    by (rule withAdminAuth_rejects)
  have "getCurrentAdminUser w (Some \<lparr>cookies = Map.empty\<rparr>) = Inr None"
    by (simp add: getCurrentAdminUser_none admin_getCurrentUser_no_token)
  then have n: "withAdminAuth w handler \<lparr>cookies = Map.empty\<rparr> =
                  withAdminAuth w handler request"
    using r by (simp add: withAdminAuth_rejects)
  have "withAdminAuth w handler request' = withAdminAuth w handler request"
    if "cookies request' ''auth_token'' = Some t' \<and> verifyToken w t' = Inl e"
    for request' t' e
  proof -
    have "getCurrentAdminUser w (Some request') = Inr None"
      using that by (simp add: getCurrentAdminUser_none admin_getCurrentUser_bad_token)
    then show ?thesis
      using r by (simp add: withAdminAuth_rejects)
  qed
  with r n show ?thesis by blast
qed

theorem withAdminAuth_customer_witness:
  "cookies customer_request ''auth_token'' = Some customer_token \<and>
   customer_token \<noteq> [] \<and>
   verifyToken example_world customer_token =
     Inr \<lparr>userId = ''u-1'', email = ''a@b.com'', iat = Some 2, exp = Some 604802\<rparr> \<and>
   users example_world = Inr [customer] \<and>
   find (\<lambda>u. user_id u = ''u-1'') [customer] = Some customer \<and>
   role customer = ''customer'' \<and>
   map_sum id status (withAdminAuth example_world ok_handler customer_request) = Inr 401 \<and>
   withAdminAuth example_world ok_handler \<lparr>cookies = Map.empty\<rparr> =
     withAdminAuth example_world ok_handler customer_request"
proof -
  let ?p = "\<lparr>userId = ''u-1'', email = ''a@b.com'', iat = Some 2, exp = Some 604802\<rparr>"
  have c: "cookies customer_request ''auth_token'' = Some customer_token"
    by (simp add: customer_request_def)
  have n: "customer_token \<noteq> []"
    by (simp add: customer_token_def put_str_def)
  have e: "example_world = example_world\<lparr>users := Inr [customer]\<rparr>"
    by (simp add: example_world_def)
  have v: "verifyToken example_world customer_token = Inr ?p"
    using verify_customer_token [of "Inr [customer]"] e by simp
  have u: "users example_world = Inr [customer]"
    by (simp add: example_world_def)
  have f: "find (\<lambda>u. user_id u = userId ?p) [customer] = Some customer"
    by (simp add: customer_def)
  have r: "role customer = ''customer''"
    by (simp add: customer_def)
  from withAdminAuth_customer [OF c n v u f r, of ok_handler]
  have "map_sum id status (withAdminAuth example_world ok_handler customer_request) = Inr 401"
    and "withAdminAuth example_world ok_handler \<lparr>cookies = Map.empty\<rparr> =
           withAdminAuth example_world ok_handler customer_request"
    by simp_all
  with c n v u f r show ?thesis by simp
qed

section \<open>The cookie set at registration\<close>

lemma createUserSession_token:
  "createUserSession w u = Inr token \<Longrightarrow>
   generateToken w \<lparr>userId = user_id u, email = user_email u\<rparr> = Inr token"
  by (cases "generateToken w \<lparr>userId = user_id u, email = user_email u\<rparr>")
     (simp_all add: createUserSession_def)

lemma register_POST_created:
  assumes "register_POST w parsed = Inr response" and "status response = 201"
  shows "\<exists>d hashedPassword newUser token.
           parsed = Inr (Inr d) \<and>
           hashPassword w (reg_password d) = Inr hashedPassword \<and>
           createUser w \<lparr>new_email = reg_email d, new_password = hashedPassword,
                         new_firstName = reg_firstName d,
                         new_lastName = reg_lastName d\<rparr> = Inr newUser \<and>
           createUserSession w newUser = Inr token \<and>
           set_cookies response = [(''auth-session'', token)]"
  using assms
  by (auto simp: register_POST_def json_response_def Let_def then_do_def try_catch_def
      split: sum.splits option.splits if_splits exn.splits)

lemma getUserFromToken_no_token:
  "cookies request ''auth_token'' = None \<Longrightarrow>
   getUserFromToken w request =
     \<lparr>success = False, tokenUserId = None, error = Some ''No authentication token''\<rparr>"
  by (simp add: getUserFromToken_def)

lemma register_example:
  "register_POST example_world registration =
     Inr \<lparr>status = 201,
          body = [(''message'', JString ''User registered successfully''),
                  (''user'', JObject [(''id'', JString ''u-2''),
                                      (''email'', JString ''c@d.com''),
                                      (''firstName'', JNull), (''lastName'', JNull),
                                      (''createdAt'', JNum 2)])],
          set_cookies =
            [(''auth-session'',
              put_str ''u-2'' @ put_str ''c@d.com'' @ put_int 2 @ put_str ''7d'' @
              put_str ''ktlian-wears'' @ put_str ''ktlian-wears-users'' @ put_str ''s3'')]\<rparr>"
  by (simp add: register_POST_def registration_def example_world_def getUserByEmail_def
      customer_def troubadour_valid hashPassword_def createUser_def createUserSession_def
      generateToken_def JWT_SECRET_def plain_lib_def plain_sign_def expiresIn_seconds_def
      json_response_def opt_json_def)

text \<open>
  C8: a successful registration (status 201) sets exactly one cookie. Its name is
  \<open>auth-session\<close>, and its value is the session token that \<open>createUserSession\<close>
  (that is, \<open>generateToken\<close> for the id and email) issued for the user that
  \<open>createUser\<close> stored with the hashed password. \<open>getSessionToken\<close> reads that token
  back from a cookie store holding the cookies of the response. A request with these
  cookies has no \<open>auth_token\<close> cookie: \<open>getCurrentUser\<close> of the admin module returns
  \<open>null\<close> for it, with the request or through the cookie store, and
  \<open>getUserFromToken\<close> fails with \<open>No authentication token\<close>, in any world.
\<close>

theorem registration_cookie_unread:
  assumes "register_POST w parsed = Inr response" and "status response = 201"
  shows "\<exists>d hashedPassword newUser token.
           parsed = Inr (Inr d) \<and>
           hashPassword w (reg_password d) = Inr hashedPassword \<and>
           createUser w \<lparr>new_email = reg_email d, new_password = hashedPassword,
                         new_firstName = reg_firstName d,
                         new_lastName = reg_lastName d\<rparr> = Inr newUser \<and>
           createUserSession w newUser = Inr token \<and>
           generateToken w \<lparr>userId = user_id newUser, email = user_email newUser\<rparr> =
             Inr token \<and>
           set_cookies response = [(SESSION_COOKIE_NAME, token)] \<and>
           SESSION_COOKIE_NAME = ''auth-session'' \<and>
           getSessionToken
             (w'\<lparr>cookieStore := Inr (cookies (request_with (set_cookies response)))\<rparr>) =
             Inr (if token = [] then None else Some token) \<and>
           cookies (request_with (set_cookies response)) ''auth_token'' = None \<and>
           admin_getCurrentUser w' (Some (request_with (set_cookies response))) = Inr None \<and>
           admin_getCurrentUser
             (w'\<lparr>cookieStore := Inr (cookies (request_with (set_cookies response)))\<rparr>) None =
             Inr None \<and>
           getUserFromToken w' (request_with (set_cookies response)) =
             \<lparr>success = False, tokenUserId = None,
              error = Some ''No authentication token''\<rparr>"
proof -
  from register_POST_created [OF assms] obtain d hashedPassword newUser token where
    p: "parsed = Inr (Inr d)" and
    h: "hashPassword w (reg_password d) = Inr hashedPassword" and
    c: "createUser w \<lparr>new_email = reg_email d, new_password = hashedPassword,
                       new_firstName = reg_firstName d,
                       new_lastName = reg_lastName d\<rparr> = Inr newUser" and
    s: "createUserSession w newUser = Inr token" and
    t: "set_cookies response = [(''auth-session'', token)]"
    by blast
  let ?request = "request_with (set_cookies response)"
  let ?stored = "w'\<lparr>cookieStore := Inr (cookies ?request)\<rparr>"
  have g: "generateToken w \<lparr>userId = user_id newUser, email = user_email newUser\<rparr> =
             Inr token"
    using s by (rule createUserSession_token)
  have n: "cookies ?request ''auth_token'' = None"
    by (simp add: t request_with_def)
  have r: "getSessionToken ?stored = Inr (if token = [] then None else Some token)"
    by (simp add: getSessionToken_def t request_with_def SESSION_COOKIE_NAME_def)
  have a: "admin_getCurrentUser w' (Some ?request) = Inr None"
    using n by (rule admin_getCurrentUser_no_token)
  have b: "admin_getCurrentUser ?stored None = Inr None"
    using n by (simp add: admin_getCurrentUser_def)
  have f: "getUserFromToken w' ?request =
       \<lparr>success = False, tokenUserId = None, error = Some ''No authentication token''\<rparr>"
    using n by (rule getUserFromToken_no_token)
  have k: "set_cookies response = [(SESSION_COOKIE_NAME, token)] \<and>
           SESSION_COOKIE_NAME = ''auth-session''"
    using t by (simp add: SESSION_COOKIE_NAME_def)
  show ?thesis
    using p h c s g k r n a b f by blast
qed

theorem registration_cookie_unread_witness:
  "\<exists>response token.
     register_POST example_world registration = Inr response \<and> status response = 201 \<and>
     generateToken example_world \<lparr>userId = ''u-2'', email = ''c@d.com''\<rparr> = Inr token \<and>
     set_cookies response = [(''auth-session'', token)] \<and>
     getSessionToken
       (example_world\<lparr>cookieStore := Inr (cookies (request_with (set_cookies response)))\<rparr>) =
       Inr (Some token) \<and>
     admin_getCurrentUser example_world (Some (request_with (set_cookies response))) =
       Inr None \<and>
     getUserFromToken example_world (request_with (set_cookies response)) =
       \<lparr>success = False, tokenUserId = None, error = Some ''No authentication token''\<rparr>"
proof -
  let ?token = "put_str ''u-2'' @ put_str ''c@d.com'' @ put_int 2 @ put_str ''7d'' @
                put_str ''ktlian-wears'' @ put_str ''ktlian-wears-users'' @ put_str ''s3''"
  obtain response where
    r: "register_POST example_world registration = Inr response" and
    s: "status response = 201" and
    k: "set_cookies response = [(''auth-session'', ?token)]"
    using register_example by simp
  have g: "generateToken example_world \<lparr>userId = ''u-2'', email = ''c@d.com''\<rparr> = Inr ?token"
    by (simp add: generateToken_def example_world_def JWT_SECRET_def plain_lib_def
        plain_sign_def expiresIn_seconds_def)
  have n: "?token \<noteq> []"
    by (simp add: put_str_def)
  from registration_cookie_unread [OF r s, of example_world] k n
  have "getSessionToken
          (example_world\<lparr>cookieStore := Inr (cookies (request_with (set_cookies response)))\<rparr>) =
          Inr (Some ?token) \<and>
        admin_getCurrentUser example_world (Some (request_with (set_cookies response))) =
          Inr None \<and>
        getUserFromToken example_world (request_with (set_cookies response)) =
          \<lparr>success = False, tokenUserId = None, error = Some ''No authentication token''\<rparr>"
    by (auto simp: SESSION_COOKIE_NAME_def)
  with r s g k show ?thesis by blast
qed

section \<open>Rate limiter\<close>

lemma isAllowed_inherited:
  assumes "identifier \<in> set object_prototype_keys" and "store identifier = None"
  shows "isAllowed config now identifier store =
           (\<lparr>allowed = True, remaining = NaN, result_resetTime = Undefined\<rparr>, store)"
  using assms by (simp add: isAllowed_def store_get_def)

lemma isAllowed_first:
  assumes "identifier \<notin> set object_prototype_keys"
    and "store identifier = None \<or> (\<exists>r. store identifier = Some r \<and> now > resetTime r)"
  shows "isAllowed config now identifier store =
           (\<lparr>allowed = True, remaining = Num (maxRequests config - 1),
             result_resetTime = Num (now + windowMs config)\<rparr>,
            store(identifier \<mapsto> \<lparr>count = 1, resetTime = now + windowMs config\<rparr>))"
  using assms by (auto simp add: isAllowed_def store_get_def)

lemma isAllowed_under:
  assumes "store identifier = Some r" and "now \<le> resetTime r"
    and "count r < maxRequests config"
  shows "isAllowed config now identifier store =
           (\<lparr>allowed = True, remaining = Num (maxRequests config - (count r + 1)),
             result_resetTime = Num (resetTime r)\<rparr>,
            store(identifier \<mapsto> r\<lparr>count := count r + 1\<rparr>))"
  using assms by (simp add: isAllowed_def store_get_def)

lemma isAllowed_full:
  assumes "store identifier = Some r" and "now \<le> resetTime r"
    and "maxRequests config \<le> count r"
  shows "isAllowed config now identifier store =
           (\<lparr>allowed = False, remaining = Num 0, result_resetTime = Num (resetTime r)\<rparr>,
            store)"
  using assms by (simp add: isAllowed_def store_get_def)

lemma rejected_unchanged:
  "\<not> allowed (fst (isAllowed config now identifier store)) \<Longrightarrow>
   snd (isAllowed config now identifier store) = store \<and>
   remaining (fst (isAllowed config now identifier store)) = Num 0"
  by (auto simp: isAllowed_def store_get_def Let_def split: option.splits if_splits slot.splits)

lemma answers_append:
  "answers config identifier (xs @ ys) store =
     (let (a, s) = answers config identifier xs store;
          (b, s') = answers config identifier ys s
      in (a @ b, s'))"
  by (induction xs arbitrary: store) (auto simp: Let_def split: prod.splits)

lemma answers_under:
  assumes "store identifier = Some r"
    and "\<forall>t \<in> set ts. t \<le> resetTime r"
    and "count r + real (length ts) \<le> maxRequests config"
  shows "answers config identifier ts store =
           (replicate (length ts) True,
            store(identifier \<mapsto> r\<lparr>count := count r + real (length ts)\<rparr>))"
  using assms
proof (induction ts arbitrary: store r)
  case Nil
  have "store(identifier \<mapsto> r) = store"
    using Nil.prems(1) by (rule map_upd_triv)
  then show ?case by simp
next
  case (Cons t ts)
  let ?r = "r\<lparr>count := count r + 1\<rparr>"
  let ?s = "store(identifier \<mapsto> ?r)"
  have a: "isAllowed config t identifier store =
          (\<lparr>allowed = True, remaining = Num (maxRequests config - (count r + 1)),
             result_resetTime = Num (resetTime r)\<rparr>, ?s)"
    using Cons.prems by (intro isAllowed_under) auto
  have "answers config identifier ts ?s =
          (replicate (length ts) True,
           ?s(identifier \<mapsto> ?r\<lparr>count := count ?r + real (length ts)\<rparr>))"
    using Cons.prems by (intro Cons.IH) auto
  moreover have "?r\<lparr>count := count ?r + real (length ts)\<rparr> =
                   r\<lparr>count := count r + real (length (t # ts))\<rparr>"
    by simp
  moreover have "?s(identifier \<mapsto> r\<lparr>count := count r + real (length (t # ts))\<rparr>) =
                   store(identifier \<mapsto> r\<lparr>count := count r + real (length (t # ts))\<rparr>)"
    by (rule fun_upd_upd)
  ultimately have "answers config identifier ts ?s =
          (replicate (length ts) True,
           store(identifier \<mapsto> r\<lparr>count := count r + real (length (t # ts))\<rparr>))"
    by metis
  then show ?case using a by (simp add: fun_upd_def)
qed

lemma answers_full:
  assumes "store identifier = Some r"
    and "\<forall>t \<in> set ts. t \<le> resetTime r"
    and "maxRequests config \<le> count r"
  shows "answers config identifier ts store = (replicate (length ts) False, store)"
  using assms
proof (induction ts)
  case Nil
  then show ?case by simp
next
  case (Cons t ts)
  then show ?case by (simp add: isAllowed_full)
qed

text \<open>
  For an identifier that is no property of \<open>Object.prototype\<close>, and a limit of five:
  starting without a record (or with an expired one), the first five calls of a window are
  allowed, every further call of the window is rejected, and the first call after the
  window is allowed and leaves a fresh record.
\<close>

lemma ordinary_identifier_window:
  assumes "maxRequests config = 5"
    and "identifier \<notin> set object_prototype_keys"
    and "store identifier = None \<or> (\<exists>r. store identifier = Some r \<and> t1 > resetTime r)"
    and "length ts = 4" and "\<forall>t \<in> set (ts @ us). t \<le> t1 + windowMs config"
    and "t' > t1 + windowMs config"
  shows "answers config identifier (t1 # ts @ us @ [t']) store =
           (replicate 5 True @ replicate (length us) False @ [True],
            store(identifier \<mapsto> \<lparr>count = 1, resetTime = t' + windowMs config\<rparr>))"
proof -
  let ?w = "windowMs config"
  let ?s1 = "store(identifier \<mapsto> \<lparr>count = 1, resetTime = t1 + ?w\<rparr>)"
  let ?s5 = "store(identifier \<mapsto> \<lparr>count = 5, resetTime = t1 + ?w\<rparr>)"
  have 1: "isAllowed config t1 identifier store =
           (\<lparr>allowed = True, remaining = Num (maxRequests config - 1),
             result_resetTime = Num (t1 + ?w)\<rparr>, ?s1)"
    using assms(2,3) by (rule isAllowed_first)
  have "answers config identifier ts ?s1 =
          (replicate (length ts) True,
           ?s1(identifier \<mapsto>
                 \<lparr>count = 1, resetTime = t1 + ?w\<rparr>
                 \<lparr>count := count \<lparr>count = 1, resetTime = t1 + ?w\<rparr> + real (length ts)\<rparr>))"
    using assms(1,4,5) by (intro answers_under) auto
  then have 2: "answers config identifier ts ?s1 = (replicate 4 True, ?s5)"
    using assms(4) by simp
  have 3: "answers config identifier us ?s5 = (replicate (length us) False, ?s5)"
    using assms(1,5)
    by (intro answers_full [where r = "\<lparr>count = 5, resetTime = t1 + ?w\<rparr>"]) auto
  have 4: "isAllowed config t' identifier ?s5 =
           (\<lparr>allowed = True, remaining = Num (maxRequests config - 1),
             result_resetTime = Num (t' + ?w)\<rparr>,
            ?s5(identifier \<mapsto> \<lparr>count = 1, resetTime = t' + ?w\<rparr>))"
    using assms(2,6) by (intro isAllowed_first) auto
  show ?thesis
    using 1 2 3 4 by (simp add: answers_append eval_nat_numeral)
qed

text \<open>
  C3: with \<open>maxRequests = 5\<close> the sixth call of a window for a fixed identifier is
  rejected. For the identifier \<open>constructor\<close>, which \<open>getClientIdentifier\<close> returns for
  the user agent \<open>constructor\<close>, the limiter allows the sixth call as it allows every call,
  with \<open>remaining = NaN\<close>, and keeps no record.
\<close>

theorem constructor_never_limited:
  "maxRequests authRateLimiter = 5 \<and>
   getClientIdentifier (Some ''constructor'') = ''constructor'' \<and>
   answers authRateLimiter ''constructor'' [0, 1, 2, 3, 4, 5] Map.empty =
     ([True, True, True, True, True, True], Map.empty) \<and>
   fst (isAllowed authRateLimiter 5 ''constructor'' Map.empty) =
     \<lparr>allowed = True, remaining = NaN, result_resetTime = Undefined\<rparr>"
proof -
  have k: "''constructor'' \<in> set object_prototype_keys"
    by (simp add: object_prototype_keys_def)
  have i: "isAllowed authRateLimiter now ''constructor'' Map.empty =
             (\<lparr>allowed = True, remaining = NaN, result_resetTime = Undefined\<rparr>, Map.empty)"
    for now
    using k by (rule isAllowed_inherited) simp
  have "getClientIdentifier (Some ''constructor'') = ''constructor''"
    by (simp add: getClientIdentifier_def)
  moreover have "maxRequests authRateLimiter = 5"
    by (simp add: authRateLimiter_def)
  ultimately show ?thesis
    by (simp add: i)
qed

section \<open>The limit as an invariant of the store\<close>

lemma whole_below: "x \<in> \<int> \<Longrightarrow> m \<in> \<int> \<Longrightarrow> \<not> m \<le> x \<Longrightarrow> x + 1 \<le> (m::real)"
proof -
  assume "x \<in> \<int>" and "m \<in> \<int>" and l: "\<not> m \<le> x"
  then obtain a b :: int where ab: "x = of_int a" "m = of_int b"
    by (auto elim!: Ints_cases)
  with l have "a < b" by simp
  then have "a + 1 \<le> b" by simp
  then have "(of_int (a + 1) :: real) \<le> of_int b"
    by (simp only: of_int_le_iff)
  then show ?thesis using ab by simp
qed

lemma within_limit_isAllowed:
  assumes "maxRequests config \<in> \<int>" and "1 \<le> maxRequests config"
    and "within_limit config store"
  shows "within_limit config (snd (isAllowed config now identifier store))"
  using assms unfolding within_limit_def
  by (auto simp: isAllowed_def store_get_def Let_def whole_below
      split: option.splits if_splits slot.splits)

lemma within_limit_cleanup:
  "within_limit config store \<Longrightarrow> within_limit config (cleanup now store)"
  unfolding within_limit_def by (auto simp: cleanup_def split: option.splits if_splits)

lemma within_limit_step:
  "maxRequests config \<in> \<int> \<Longrightarrow> 1 \<le> maxRequests config \<Longrightarrow> within_limit config store \<Longrightarrow>
   within_limit config (step config store c)"
  by (cases c) (simp_all add: within_limit_isAllowed within_limit_cleanup)

lemma within_limit_foldl:
  "maxRequests config \<in> \<int> \<Longrightarrow> 1 \<le> maxRequests config \<Longrightarrow> within_limit config store \<Longrightarrow>
   within_limit config (foldl (step config) store calls)"
  by (induction calls arbitrary: store) (simp_all add: within_limit_step)

text \<open>A whole limit of at least one is kept by every history of calls.\<close>

lemma within_limit_run:
  "maxRequests config \<in> \<int> \<Longrightarrow> 1 \<le> maxRequests config \<Longrightarrow>
   within_limit config (run config calls)"
  unfolding run_def by (rule within_limit_foldl) (simp_all add: within_limit_def)

lemma cleanup_remaining: "cleanup now store key = Some r \<Longrightarrow> now \<le> resetTime r"
  by (auto simp: cleanup_def split: option.splits if_splits)

lemma run_snoc: "run config (calls @ [c]) = step config (run config calls) c"
  by (simp add: run_def)

lemma module_limiters:
  "config = authRateLimiter \<or> config = generalRateLimiter \<Longrightarrow>
   maxRequests config \<in> \<int> \<and> 1 \<le> maxRequests config"
  by (auto simp: authRateLimiter_def generalRateLimiter_def)

lemma seven_calls_store:
  "run authRateLimiter seven_calls ''curl/8.0'' = Some \<lparr>count = 5, resetTime = 900000\<rparr>"
  by (simp add: run_def seven_calls_def isAllowed_def store_get_def object_prototype_keys_def
      authRateLimiter_def)

text \<open>
  C7: the class \<open>RateLimiter\<close> is not exported, and the limiters of the program are the
  two the module creates, \<open>authRateLimiter\<close> and \<open>generalRateLimiter\<close>. For each of
  them, after every sequence of \<open>isAllowed\<close> and \<open>cleanup\<close> calls every record of the
  store has \<open>count \<le> maxRequests\<close>; a rejected request leaves the store as it is; and
  after a \<open>cleanup\<close> call every remaining record has a \<open>resetTime\<close> not earlier than
  the time of the call.
\<close>

theorem count_within_limit:
  assumes "config = authRateLimiter \<or> config = generalRateLimiter"
  shows "(\<forall>key r. run config calls key = Some r \<longrightarrow> count r \<le> maxRequests config) \<and>
         (\<forall>now identifier.
            \<not> allowed (fst (isAllowed config now identifier (run config calls))) \<longrightarrow>
            snd (isAllowed config now identifier (run config calls)) = run config calls) \<and>
         (\<forall>now key r.
            run config (calls @ [Cleanup now]) key = Some r \<longrightarrow> now \<le> resetTime r)"
proof (intro conjI allI impI)
  fix key r
  assume "run config calls key = Some r"
  moreover have "within_limit config (run config calls)"
    using module_limiters [OF assms] by (simp add: within_limit_run)
  ultimately show "count r \<le> maxRequests config"
    by (simp add: within_limit_def)
next
  fix now ident
  assume "\<not> allowed (fst (isAllowed config now ident (run config calls)))"
  then show "snd (isAllowed config now ident (run config calls)) = run config calls"
    by (simp add: rejected_unchanged)
next
  fix now key r
  assume "run config (calls @ [Cleanup now]) key = Some r"
  then have "cleanup now (run config calls) key = Some r"
    by (simp add: run_snoc)
  then show "now \<le> resetTime r"
    by (rule cleanup_remaining)
qed

theorem count_within_limit_witness:
  "(authRateLimiter = authRateLimiter \<or> authRateLimiter = generalRateLimiter) \<and>
   run authRateLimiter seven_calls ''curl/8.0'' = Some \<lparr>count = 5, resetTime = 900000\<rparr> \<and>
   count \<lparr>count = 5, resetTime = 900000\<rparr> \<le> maxRequests authRateLimiter \<and>
   \<not> allowed (fst (isAllowed authRateLimiter 7 ''curl/8.0'' (run authRateLimiter seven_calls))) \<and>
   snd (isAllowed authRateLimiter 7 ''curl/8.0'' (run authRateLimiter seven_calls)) =
     run authRateLimiter seven_calls \<and>
   run authRateLimiter (seven_calls @ [Cleanup 8]) ''curl/8.0'' =
     Some \<lparr>count = 5, resetTime = 900000\<rparr> \<and>
   (8::real) \<le> resetTime \<lparr>count = 5, resetTime = 900000\<rparr>"
proof -
  let ?r = "\<lparr>count = 5, resetTime = 900000\<rparr>"
  have h: "authRateLimiter = authRateLimiter \<or> authRateLimiter = generalRateLimiter"
    by simp
  note w = count_within_limit [OF h, of seven_calls]
  have s: "run authRateLimiter seven_calls ''curl/8.0'' = Some ?r"
    by (rule seven_calls_store)
  have c: "count ?r \<le> maxRequests authRateLimiter"
    using w s by blast
  have "isAllowed authRateLimiter 7 ''curl/8.0'' (run authRateLimiter seven_calls) =
          (\<lparr>allowed = False, remaining = Num 0, result_resetTime = Num (resetTime ?r)\<rparr>,
           run authRateLimiter seven_calls)"
    using s by (rule isAllowed_full) (simp_all add: authRateLimiter_def)
  then have a: "\<not> allowed (fst (isAllowed authRateLimiter 7 ''curl/8.0''
                                  (run authRateLimiter seven_calls)))"
    by simp
  have u: "snd (isAllowed authRateLimiter 7 ''curl/8.0'' (run authRateLimiter seven_calls)) =
             run authRateLimiter seven_calls"
    using w a by blast
  have k: "run authRateLimiter (seven_calls @ [Cleanup 8]) ''curl/8.0'' = Some ?r"
    by (simp add: run_snoc s cleanup_def)
  have t: "(8::real) \<le> resetTime ?r"
    using w k by blast
  show ?thesis
    using h s c a u k t by blast
qed

end
